theory Spec2Isabelle
  imports Main
begin

section \<open>Data model\<close>

text \<open>
  Go's \<open>[]byte\<close>, \<open>json.RawMessage\<close> and \<open>string\<close> are byte sequences: \<open>char list\<close>.
  A peer id is used through its \<open>String()\<close> form only. Logging calls have no effect on
  any state the program reads back and are left out of the model.
\<close>

type_synonym bytes = string
type_synonym peer_ID = string

definition rpcRequest :: string where
  "rpcRequest = ''request''"

definition rpcResponse :: string where
  "rpcResponse = ''response''"

record pubsubMsg =
  ID_ps :: string
  Type_ps :: string
  Payload_ps :: bytes

record rpcMsg =
  ID :: string
  Type :: string
  Payload :: bytes

record rpcPayloadRequest =
  Type_req :: string
  Data_req :: bytes

record rpcPayloadResponse =
  Error :: string
  Data :: bytes

text \<open>
  A Go function value either returns with a nil error, returns a non-nil error, or
  panics. The three exits of a handler call are the three constructors.
\<close>

datatype 'a call = Return 'a | Fail string | Panic string

record ('v, 'sh) rpcHandler =
  Func :: "peer_ID \<Rightarrow> 'v \<Rightarrow> 'v call"
  RequestStruct :: 'sh

record ('v, 'sh) pubsubHandler =
  Func_ps :: "peer_ID \<Rightarrow> 'v \<Rightarrow> unit call"
  PayloadStruct :: 'sh

text \<open>
  The three channels of a request tracker are unbuffered. \<open>resp\<close> and \<open>err\<close> hold the value
  a sender has handed over on the channel (the caller of \<open>sendRequest\<close> is the only
  receiver); the three flags say whether the channel has been closed. \<open>startTime\<close> is
  never read and is left out.
\<close>

record requestTracker =
  resp :: "bytes option"
  err :: "string option"
  closeSig :: bool
  resp_closed :: bool
  err_closed :: bool

definition new_requestTracker :: requestTracker where
  "new_requestTracker =
     \<lparr>resp = None, err = None, closeSig = False, resp_closed = False, err_closed = False\<rparr>"

text \<open>
  \<open>WriteQueue\<close> is the content of the buffered channel, oldest message first; \<open>Stop\<close> is
  the identity of the context that the cancel function cancels.
\<close>

record rpcMsgProcessor =
  WriteQueue :: "rpcMsg list"
  Stop :: nat

text \<open>
  The fields of \<open>P2P\<close> that the functions below read or write; \<open>host_ID\<close> is what
  \<open>p2p.host.ID()\<close> returns. The two concurrent maps are maps.
\<close>

record ('v, 'sh) P2P =
  host_ID :: peer_ID
  rpcHandlers :: "string \<rightharpoonup> ('v, 'sh) rpcHandler"
  pubsubHandlers :: "string \<rightharpoonup> ('v, 'sh) pubsubHandler"
  reqs :: "string \<rightharpoonup> requestTracker"
  rpcMsgProcessors :: "peer_ID \<rightharpoonup> rpcMsgProcessor"

text \<open>
  \<open>encoding/json\<close> is a library outside the repository: its functions are parameters of
  the model. A value of Go's \<open>interface{}\<close> is a \<open>'v\<close>; the prototype a handler registers
  (and the pointer \<open>sendRequest\<close> decodes into) is a shape \<open>'sh\<close>, and \<open>Unmarshal\<close> decodes
  into a fresh value of that shape. \<open>Inl\<close> carries the text of the error.
\<close>

record ('v, 'sh) json =
  Marshal :: "'v \<Rightarrow> string + bytes"
  Unmarshal :: "'sh \<Rightarrow> bytes \<Rightarrow> string + 'v"
  Marshal_msg :: "rpcMsg \<Rightarrow> string + bytes"
  Unmarshal_msg :: "bytes \<Rightarrow> string + rpcMsg"
  Marshal_request :: "rpcPayloadRequest \<Rightarrow> string + bytes"
  Unmarshal_request :: "bytes \<Rightarrow> string + rpcPayloadRequest"
  Marshal_response :: "rpcPayloadResponse \<Rightarrow> string + bytes"
  Unmarshal_response :: "bytes \<Rightarrow> string + rpcPayloadResponse"
  Unmarshal_pubsub :: "bytes \<Rightarrow> string + pubsubMsg"

section \<open>Framer\<close>

definition delim :: char where
  "delim = CHR 0x0A"

text \<open>
  \<open>bufio.Reader.ReadBytes\<close> on what is left of the stream: the data up to and including
  the first delimiter, or, when the stream ends first, the data read so far together
  with the error. The result is the data, whether an error was returned, and the rest
  of the stream.
\<close>

fun ReadBytes :: "bytes \<Rightarrow> bytes \<times> bool \<times> bytes" where
  "ReadBytes [] = ([], True, [])"
| "ReadBytes (b # bs) =
     (if b = delim then ([b], False, bs)
      else (case ReadBytes bs of (d, e, r) \<Rightarrow> (b # d, e, r)))"

text \<open>
  \<open>delimReader\<close>: the chunks sent on the channel, in order, until the read that returns
  an error. The \<open>delim\<close> argument of the source is ignored there too: \<open>ReadBytes\<close> is called
  with the newline literal.
\<close>

function delimReader :: "bytes \<Rightarrow> bytes list" where
  "delimReader r =
     (case ReadBytes r of (bytes, e, rest) \<Rightarrow>
        (if length bytes \<noteq> 0 then [bytes] else []) @ (if e then [] else delimReader rest))"
  by pat_completeness auto
termination
proof (relation "measure length")
  show "wf (measure length)"
    by simp
next
  fix r :: bytes and x y bytes e rest
  assume rd: "(bytes, y) = ReadBytes r" "(e, rest) = y" and ok: "\<not> e"
  have shorter: "ReadBytes s = (d, False, t) \<Longrightarrow> length t < length s" for s d t
    by (induction s arbitrary: d) (auto split: if_splits prod.splits)
  from rd ok have "ReadBytes r = (bytes, False, rest)"
    by simp
  then show "(rest, r) \<in> measure length"
    by (simp add: shorter)
qed

declare delimReader.simps [simp del]

text \<open>
  The receive loop of \<open>rpcMsgReader\<close> over the chunks that arrive before the context is
  cancelled: a chunk of length zero is skipped, any other is handed to \<open>msgProcessor\<close>.
  The task spawned for a chunk is run to its end before the next chunk is taken.
\<close>

primrec rpcMsgReader :: "('s \<Rightarrow> bytes \<Rightarrow> 's) \<Rightarrow> 's \<Rightarrow> bytes list \<Rightarrow> 's" where
  "rpcMsgReader msgProcessor s [] = s"
| "rpcMsgReader msgProcessor s (bytes # rest) =
     (if length bytes = 0 then rpcMsgReader msgProcessor s rest
      else rpcMsgReader msgProcessor (msgProcessor s bytes) rest)"

text \<open>The chunks for which \<open>rpcMsgReader\<close> spawns a processing task.\<close>

definition dispatched :: "bytes list \<Rightarrow> bytes list" where
  "dispatched frames = rpcMsgReader (\<lambda>t b. t @ [b]) [] frames"

section \<open>Handler registry\<close>

definition quoted :: "string \<Rightarrow> string" where
  "quoted s = CHR 0x27 # s @ [CHR 0x27]"

definition getRPCHandler ::
  "('v, 'sh) P2P \<Rightarrow> string \<Rightarrow> string + ('v, 'sh) rpcHandler" where
  "getRPCHandler p2p msgType =
     (case rpcHandlers p2p msgType of
        Some handler \<Rightarrow> Inr handler
      | None \<Rightarrow> Inl (''RPC handler for method '' @ quoted msgType @ '' not found''))"

definition addRPCHandler ::
  "('v, 'sh) P2P \<Rightarrow> string \<Rightarrow> ('v, 'sh) rpcHandler \<Rightarrow> ('v, 'sh) P2P" where
  "addRPCHandler p2p methodName handler =
     p2p\<lparr>rpcHandlers := (rpcHandlers p2p)(methodName \<mapsto> handler)\<rparr>"

definition getPubSubHandler ::
  "('v, 'sh) P2P \<Rightarrow> string \<Rightarrow> string + ('v, 'sh) pubsubHandler" where
  "getPubSubHandler p2p msgType =
     (case pubsubHandlers p2p msgType of
        Some handler \<Rightarrow> Inr handler
      | None \<Rightarrow> Inl (''PubSub handler for msg type '' @ quoted msgType @ '' not found''))"

definition addPubSubHandler ::
  "('v, 'sh) P2P \<Rightarrow> string \<Rightarrow> ('v, 'sh) pubsubHandler \<Rightarrow> ('v, 'sh) P2P" where
  "addPubSubHandler p2p msgType handler =
     p2p\<lparr>pubsubHandlers := (pubsubHandlers p2p)(msgType \<mapsto> handler)\<rparr>"

section \<open>Peer workers\<close>

record Stream =
  RemotePeer :: peer_ID

datatype task = rpcMsgReader_task Stream nat | rpcMsgWriter_task Stream nat

text \<open>The concurrent map's insert-if-absent: the new map and whether the value went in.\<close>

definition SetIfAbsent :: "('k \<rightharpoonup> 'a) \<Rightarrow> 'k \<Rightarrow> 'a \<Rightarrow> ('k \<rightharpoonup> 'a) \<times> bool" where
  "SetIfAbsent m k v = (case m k of None \<Rightarrow> (m(k \<mapsto> v), True) | Some _ \<Rightarrow> (m, False))"

text \<open>
  \<open>newRPCStreamHandler\<close> returns the new state and the tasks it started. \<open>ctx\<close> is the
  context that \<open>context.WithCancel\<close> creates for the worker.
\<close>

definition newRPCStreamHandler ::
  "('v, 'sh) P2P \<Rightarrow> Stream \<Rightarrow> nat \<Rightarrow> ('v, 'sh) P2P \<times> task list" where
  "newRPCStreamHandler p2p s ctx =
     (case rpcMsgProcessors p2p (RemotePeer s) of
        Some _ \<Rightarrow> (p2p, [])
      | None \<Rightarrow>
          (case SetIfAbsent (rpcMsgProcessors p2p) (RemotePeer s) \<lparr>WriteQueue = [], Stop = ctx\<rparr> of
             (m, inserted) \<Rightarrow>
               if inserted
               then (p2p\<lparr>rpcMsgProcessors := m\<rparr>, [rpcMsgReader_task s ctx, rpcMsgWriter_task s ctx])
               else (p2p\<lparr>rpcMsgProcessors := m\<rparr>, [])))"

text \<open>
  \<open>closeConnectionHandler\<close> pops the worker of the peer and returns the context it
  cancels, if there was a worker. The peer list it sends on \<open>peerListChan\<close> comes from
  the host and is left out.
\<close>

definition closeConnectionHandler ::
  "('v, 'sh) P2P \<Rightarrow> peer_ID \<Rightarrow> ('v, 'sh) P2P \<times> nat option" where
  "closeConnectionHandler p2p remote =
     (case rpcMsgProcessors p2p remote of
        None \<Rightarrow> (p2p, None)
      | Some msgProcessor \<Rightarrow>
          (p2p\<lparr>rpcMsgProcessors := (rpcMsgProcessors p2p)(remote := None)\<rparr>,
           Some (Stop msgProcessor)))"

text \<open>
  \<open>rpcMsgWriter\<close> over the messages it takes from the queue: the bytes it hands to the
  stream's \<open>Write\<close>, one call per message that encodes.
\<close>

primrec rpcMsgWriter :: "('v, 'sh) json \<Rightarrow> rpcMsg list \<Rightarrow> bytes" where
  "rpcMsgWriter js [] = []"
| "rpcMsgWriter js (msg # queue) =
     (case Marshal_msg js msg of
        Inl e \<Rightarrow> rpcMsgWriter js queue
      | Inr jsonMsg \<Rightarrow> (jsonMsg @ [delim]) @ rpcMsgWriter js queue)"

section \<open>RPC dispatcher\<close>

text \<open>
  The block "encode the response, put it in the message, send it on the write queue",
  which \<open>requestHandler\<close> repeats on each of its paths. The queue is bounded (200): the
  send is modelled at the moment it completes.
\<close>

definition send_response ::
  "('v, 'sh) json \<Rightarrow> rpcMsg \<Rightarrow> rpcPayloadResponse \<Rightarrow> rpcMsg list \<Rightarrow> rpcMsg list" where
  "send_response js msg response writeQueue =
     (case Marshal_response js response of
        Inl e \<Rightarrow> writeQueue
      | Inr jsonResp \<Rightarrow> writeQueue @ [msg\<lparr>Payload := jsonResp\<rparr>])"

text \<open>
  \<open>requestHandler\<close> returns the write queue as it leaves it (\<open>Inr\<close>), or the value of the
  panic that the handler function raised (\<open>Inl\<close>); nothing has been sent on the queue
  when the handler function is called.
\<close>

definition requestHandler ::
  "('v, 'sh) json \<Rightarrow> ('v, 'sh) P2P \<Rightarrow> string \<Rightarrow> peer_ID \<Rightarrow> rpcPayloadRequest \<Rightarrow> rpcMsg list
     \<Rightarrow> string + rpcMsg list" where
  "requestHandler js p2p reqID peerID request writeQueue =
     (let msg = \<lparr>ID = reqID, Type = rpcResponse, Payload = []\<rparr>;
          response = \<lparr>Error = [], Data = []\<rparr>
      in case getRPCHandler p2p (Type_req request) of
           Inl e \<Rightarrow> Inr (send_response js msg (response\<lparr>Error := e\<rparr>) writeQueue)
         | Inr handler \<Rightarrow>
             (case Unmarshal js (RequestStruct handler) (Data_req request) of
                Inl e \<Rightarrow>
                  Inr (send_response js msg
                         (response\<lparr>Error := ''failed to decode data struct: '' @ e\<rparr>) writeQueue)
              | Inr data \<Rightarrow>
                  (case Func handler peerID data of
                     Panic r \<Rightarrow> Inl r
                   | Fail e \<Rightarrow>
                       Inr (send_response js msg
                              (response\<lparr>Error := ''Internal error: '' @ e\<rparr>) writeQueue)
                   | Return handlerResponse \<Rightarrow>
                       (case Marshal js handlerResponse of
                          Inl e \<Rightarrow>
                            Inr (send_response js msg
                                   (response\<lparr>Error := ''Internal error: '' @ e\<rparr>) writeQueue)
                        | Inr jsonHandlerResponse \<Rightarrow>
                            Inr (send_response js msg
                                   (response\<lparr>Data := jsonHandlerResponse\<rparr>) writeQueue)))))"

text \<open>
  \<open>responseHandler\<close>, run without interruption. The tracker is reached through the
  table, which holds it for as long as its \<open>sendRequest\<close> waits.
\<close>

definition responseHandler ::
  "('v, 'sh) P2P \<Rightarrow> string \<Rightarrow> peer_ID \<Rightarrow> rpcPayloadResponse \<Rightarrow> ('v, 'sh) P2P" where
  "responseHandler p2p reqID peerID response =
     (case reqs p2p reqID of
        None \<Rightarrow> p2p
      | Some req \<Rightarrow>
          if closeSig req then p2p
          else
            (let req1 = req\<lparr>closeSig := True\<rparr>;
                 req2 = (if Error response \<noteq> []
                         then req1\<lparr>err := Some (''error returned by '' @ quoted peerID @ '': ''
                                                    @ Error response)\<rparr>
                         else req1\<lparr>resp := Some (Data response)\<rparr>);
                 req3 = req2\<lparr>resp_closed := True, err_closed := True\<rparr>
             in p2p\<lparr>reqs := (reqs p2p)(reqID \<mapsto> req3)\<rparr>))"

text \<open>
  The per-chunk task of \<open>rpcMsgReader\<close>, on the state of the node and the write queue
  of the worker. The deferred \<open>recover\<close> turns a panic of \<open>requestHandler\<close> into a log
  line: the task ends and the state is as it was when the panic was raised.
\<close>

definition msgProcessor ::
  "('v, 'sh) json \<Rightarrow> peer_ID \<Rightarrow> ('v, 'sh) P2P \<times> rpcMsg list \<Rightarrow> bytes
     \<Rightarrow> ('v, 'sh) P2P \<times> rpcMsg list" where
  "msgProcessor js remote st msgBytes =
     (case st of (p2p, writeQueue) \<Rightarrow>
        (case Unmarshal_msg js msgBytes of
           Inl e \<Rightarrow> (p2p, writeQueue)
         | Inr msg \<Rightarrow>
             if Type msg = rpcRequest then
               (case Unmarshal_request js (Payload msg) of
                  Inl e \<Rightarrow> (p2p, writeQueue)
                | Inr reqMsg \<Rightarrow>
                    (case requestHandler js p2p (ID msg) remote reqMsg writeQueue of
                       Inl r \<Rightarrow> (p2p, writeQueue)
                     | Inr writeQueue' \<Rightarrow> (p2p, writeQueue')))
             else if Type msg = rpcResponse then
               (case Unmarshal_response js (Payload msg) of
                  Inl e \<Rightarrow> (p2p, writeQueue)
                | Inr respMsg \<Rightarrow> (responseHandler p2p (ID msg) remote respMsg, writeQueue))
             else (p2p, writeQueue)))"

section \<open>Sending a request\<close>

text \<open>
  The timeout goroutine once its sleep is over, run without interruption: it does
  nothing when the close signal is closed, and otherwise closes it, sends the timeout
  error and closes the two channels.
\<close>

definition timeout_goroutine ::
  "string \<Rightarrow> string \<Rightarrow> peer_ID \<Rightarrow> requestTracker \<Rightarrow> requestTracker" where
  "timeout_goroutine reqID msgType peerID reqTracker =
     (if closeSig reqTracker then reqTracker
      else reqTracker
             \<lparr>err := Some (''timeout waiting for request '' @ quoted reqID @ ''('' @ msgType
                           @ '') to peer '' @ quoted peerID),
              closeSig := True, resp_closed := True, err_closed := True\<rparr>)"

text \<open>
  \<open>sendRequest\<close>. \<open>reqID\<close> is the identifier that \<open>ksuid.New\<close> mints. \<open>world\<close> is everything
  that runs between the send on the write queue and the end of the sleep of the timeout
  goroutine: the writer, the remote peer, the reader tasks of this node. The timeout
  goroutine then runs, and the final \<open>select\<close> receives what has been sent on \<open>resp\<close> or
  on \<open>err\<close>; the deferred removal takes the entry out of the table. The tracker is
  reached through the table. The result is \<open>None\<close> when the \<open>select\<close> never receives;
  otherwise it is the state at the return and either the error (\<open>Inl\<close>) or the value
  decoded into \<open>responseData\<close> (\<open>Inr\<close>). The returns before the send on the write queue
  come before the \<open>defer\<close> statement, as in the source.
\<close>

definition sendRequest ::
  "('v, 'sh) json \<Rightarrow> (('v, 'sh) P2P \<Rightarrow> ('v, 'sh) P2P) \<Rightarrow> ('v, 'sh) P2P \<Rightarrow> string \<Rightarrow> peer_ID
     \<Rightarrow> string \<Rightarrow> 'v \<Rightarrow> 'sh \<Rightarrow> (('v, 'sh) P2P \<times> (string + 'v)) option" where
  "sendRequest js world p2p reqID peerID msgType requestData responseData =
     (let msg = \<lparr>ID = reqID, Type = rpcRequest, Payload = []\<rparr>
      in case Marshal js requestData of
           Inl e \<Rightarrow>
             Some (p2p, Inl (''failed to encode data for request '' @ quoted reqID @ '' for peer ''
                             @ quoted peerID @ '': '' @ e))
         | Inr jsonReqData \<Rightarrow>
             (case Marshal_request js \<lparr>Type_req = msgType, Data_req = jsonReqData\<rparr> of
                Inl e \<Rightarrow>
                  Some (p2p, Inl (''failed to encode request '' @ quoted reqID @ '' for peer ''
                                  @ quoted peerID @ '': '' @ e))
              | Inr jsonReq \<Rightarrow>
                  (let p2p1 = p2p\<lparr>reqs := (reqs p2p)(reqID \<mapsto> new_requestTracker)\<rparr>
                   in case rpcMsgProcessors p2p1 peerID of
                        None \<Rightarrow>
                          Some (p2p1, Inl (''failed to send request '' @ quoted reqID @ '' for peer ''
                                           @ quoted peerID @ '': peer writer not found''))
                      | Some worker \<Rightarrow>
                          (let p2p2 = p2p1\<lparr>rpcMsgProcessors := (rpcMsgProcessors p2p1)
                                 (peerID \<mapsto> worker\<lparr>WriteQueue :=
                                    WriteQueue worker @ [msg\<lparr>Payload := jsonReq\<rparr>]\<rparr>)\<rparr>;
                               p2p3 = world p2p2;
                               reqTracker = timeout_goroutine reqID msgType peerID
                                  (case reqs p2p3 reqID of
                                     Some t \<Rightarrow> t | None \<Rightarrow> new_requestTracker);
                               p2p4 = p2p3\<lparr>reqs := (reqs p2p3)(reqID := None)\<rparr>
                           in case resp reqTracker of
                                Some r \<Rightarrow>
                                  (case Unmarshal js responseData r of
                                     Inl e \<Rightarrow>
                                       Some (p2p4, Inl (''failed to decode response payload: '' @ e))
                                   | Inr v \<Rightarrow> Some (p2p4, Inr v))
                              | None \<Rightarrow>
                                  (case err reqTracker of
                                     Some e \<Rightarrow> Some (p2p4, Inl e)
                                   | None \<Rightarrow> None)))))"

text \<open>
  The world of a request from this node to the peer \<open>b\<close> whose state is \<open>B\<close>, over a stream
  that delivers what is written: the writer of this node drains the queue of \<open>b\<close>, the
  reader of \<open>b\<close> processes the chunks and fills the queue of its worker, the writer of
  \<open>b\<close> drains it, and the reader of this node processes those chunks.
\<close>

definition deliver ::
  "('v, 'sh) json \<Rightarrow> peer_ID \<Rightarrow> ('v, 'sh) P2P \<times> rpcMsg list \<Rightarrow> rpcMsg list
     \<Rightarrow> ('v, 'sh) P2P \<times> rpcMsg list" where
  "deliver js sender st queue =
     rpcMsgReader (msgProcessor js sender) st (delimReader (rpcMsgWriter js queue))"

definition exchange ::
  "('v, 'sh) json \<Rightarrow> peer_ID \<Rightarrow> ('v, 'sh) P2P \<Rightarrow> ('v, 'sh) P2P \<Rightarrow> ('v, 'sh) P2P" where
  "exchange js b B p2p =
     (case rpcMsgProcessors p2p b of
        None \<Rightarrow> p2p
      | Some worker \<Rightarrow>
          (case deliver js (host_ID p2p) (B, []) (WriteQueue worker) of
             (B', queueB) \<Rightarrow>
               (case deliver js b
                       (p2p\<lparr>rpcMsgProcessors :=
                              (rpcMsgProcessors p2p)(b \<mapsto> worker\<lparr>WriteQueue := []\<rparr>)\<rparr>, [])
                       queueB of
                  (p2p', queue) \<Rightarrow>
                    p2p'\<lparr>rpcMsgProcessors :=
                           (rpcMsgProcessors p2p')(b \<mapsto> worker\<lparr>WriteQueue := queue\<rparr>)\<rparr>)))"

section \<open>The close-signal latch, step by step\<close>

text \<open>
  The two goroutines that complete a tracked request are \<open>responseHandler\<close>, from its
  \<open>select\<close> on the close signal on, and the timeout goroutine, from the end of its sleep
  on. Both run the same five channel operations; \<open>pc\<close> is the operation a goroutine
  performs next.
\<close>

datatype pc = Check | Close_closeSig | Send | Close_resp | Close_err | Exited | Panicked

text \<open>
  One channel operation of a goroutine that sends \<open>v\<close> (\<open>Inl\<close>: an error, on \<open>err\<close>;
  \<open>Inr\<close>: the data, on \<open>resp\<close>). Closing a closed channel and sending on a closed channel
  panic. The channels are unbuffered and the caller of \<open>sendRequest\<close> receives once: a
  send completes while nothing has been handed over, and blocks afterwards.
\<close>

fun goroutine_step ::
  "string + bytes \<Rightarrow> pc \<Rightarrow> requestTracker \<Rightarrow> pc \<times> requestTracker" where
  "goroutine_step v Check t = (if closeSig t then (Exited, t) else (Close_closeSig, t))"
| "goroutine_step v Close_closeSig t =
     (if closeSig t then (Panicked, t) else (Send, t\<lparr>closeSig := True\<rparr>))"
| "goroutine_step v Send t =
     (case v of
        Inl e \<Rightarrow>
          if err_closed t then (Panicked, t)
          else if resp t = None \<and> err t = None then (Close_resp, t\<lparr>err := Some e\<rparr>)
          else (Send, t)
      | Inr d \<Rightarrow>
          if resp_closed t then (Panicked, t)
          else if resp t = None \<and> err t = None then (Close_resp, t\<lparr>resp := Some d\<rparr>)
          else (Send, t))"
| "goroutine_step v Close_resp t =
     (if resp_closed t then (Panicked, t) else (Close_err, t\<lparr>resp_closed := True\<rparr>))"
| "goroutine_step v Close_err t =
     (if err_closed t then (Panicked, t) else (Exited, t\<lparr>err_closed := True\<rparr>))"
| "goroutine_step v Exited t = (Exited, t)"
| "goroutine_step v Panicked t = (Panicked, t)"

datatype goroutine = ResponseHandler | Timeout

record latch =
  tracker :: requestTracker
  responseHandler_pc :: pc
  timeout_pc :: pc

text \<open>What \<open>responseHandler\<close> sends for a response, and what the timeout goroutine sends.\<close>

definition response_value :: "peer_ID \<Rightarrow> rpcPayloadResponse \<Rightarrow> string + bytes" where
  "response_value peerID response =
     (if Error response \<noteq> []
      then Inl (''error returned by '' @ quoted peerID @ '': '' @ Error response)
      else Inr (Data response))"

definition timeout_value :: "string \<Rightarrow> string \<Rightarrow> peer_ID \<Rightarrow> string + bytes" where
  "timeout_value reqID msgType peerID =
     Inl (''timeout waiting for request '' @ quoted reqID @ ''('' @ msgType @ '') to peer ''
          @ quoted peerID)"

definition step ::
  "string + bytes \<Rightarrow> string + bytes \<Rightarrow> latch \<Rightarrow> goroutine \<Rightarrow> latch" where
  "step rv tv s g =
     (case g of
        ResponseHandler \<Rightarrow>
          (case goroutine_step rv (responseHandler_pc s) (tracker s) of
             (p, t) \<Rightarrow> s\<lparr>tracker := t, responseHandler_pc := p\<rparr>)
      | Timeout \<Rightarrow>
          (case goroutine_step tv (timeout_pc s) (tracker s) of
             (p, t) \<Rightarrow> s\<lparr>tracker := t, timeout_pc := p\<rparr>))"

text \<open>A schedule names the goroutine that performs the next operation.\<close>

definition run :: "string + bytes \<Rightarrow> string + bytes \<Rightarrow> goroutine list \<Rightarrow> latch \<Rightarrow> latch" where
  "run rv tv schedule s = foldl (step rv tv) s schedule"

definition latch_init :: latch where
  "latch_init =
     \<lparr>tracker = new_requestTracker, responseHandler_pc = Check, timeout_pc = Check\<rparr>"

section \<open>PubSub dispatcher\<close>

record Message =
  ReceivedFrom :: peer_ID
  Data_ps :: bytes

text \<open>A call of a pubsub handler: the message type it is registered under and its arguments.\<close>

datatype 'v invocation = Invoke string peer_ID 'v

text \<open>The task spawned for an accepted message: the handler calls it makes.\<close>

definition pubsub_task ::
  "('v, 'sh) json \<Rightarrow> ('v, 'sh) P2P \<Rightarrow> Message \<Rightarrow> 'v invocation list" where
  "pubsub_task js p2p msg =
     (case Unmarshal_pubsub js (Data_ps msg) of
        Inl e \<Rightarrow> []
      | Inr pubsubMsg \<Rightarrow>
          (case getPubSubHandler p2p (Type_ps pubsubMsg) of
             Inl e \<Rightarrow> []
           | Inr handler \<Rightarrow>
               (case Unmarshal js (PayloadStruct handler) (Payload_ps pubsubMsg) of
                  Inl e \<Rightarrow> []
                | Inr payload \<Rightarrow> [Invoke (Type_ps pubsubMsg) (ReceivedFrom msg) payload])))"

text \<open>
  The loop of \<open>pubsubMsgProcessor\<close> over what \<open>subscription.Next\<close> returns, a message or
  an error; the end of the list is the cancellation of the context. The result is the
  handler calls made, in the order the tasks are spawned.
\<close>

fun pubsubMsgProcessor ::
  "('v, 'sh) json \<Rightarrow> ('v, 'sh) P2P \<Rightarrow> (string + Message) list \<Rightarrow> 'v invocation list" where
  "pubsubMsgProcessor js p2p [] = []"
| "pubsubMsgProcessor js p2p (Inl e # next) = []"
| "pubsubMsgProcessor js p2p (Inr msg # next) =
     (if ReceivedFrom msg = host_ID p2p then pubsubMsgProcessor js p2p next
      else pubsub_task js p2p msg @ pubsubMsgProcessor js p2p next)"

text \<open>The peer a recorded handler call was made for.\<close>

fun invoked_from :: "'v invocation \<Rightarrow> peer_ID" where
  "invoked_from (Invoke ty peer v) = peer"

section \<open>The gRPC server\<close>

record Commit =
  Hash :: string

text \<open>
  The \<open>ExternalDB\<close> interface over an abstract database state \<open>'db\<close>; each method returns
  the new state and its result. \<open>AddPeer\<close> and \<open>RemovePeer\<close> are never called by the server.
\<close>

record 'db ExternalDB =
  GetAllCommits :: "'db \<Rightarrow> 'db \<times> (string + Commit list)"
  ExecAndCommit :: "'db \<Rightarrow> string \<Rightarrow> string \<Rightarrow> 'db \<times> (string + string)"
  GetLastCommit :: "'db \<Rightarrow> string \<Rightarrow> 'db \<times> (string + Commit)"

record PingRequest =
  Ping :: string

record PingResponse =
  Pong :: string

record ExecSQLRequest =
  Statement :: string
  Msg :: string

record ExecSQLResponse =
  Result :: string
  Commit :: string

text \<open>
  The context is read through \<open>RemotePeerFromContext\<close> only, so it is modelled by what
  that call returns: the remote peer, when the context carries one.
\<close>

definition Server_Ping ::
  "'db ExternalDB \<Rightarrow> 'db \<Rightarrow> peer_ID option \<Rightarrow> PingRequest \<Rightarrow> 'db \<times> (string + PingResponse)" where
  "Server_Ping DB db ctx req =
     (case ctx of
        None \<Rightarrow> (db, Inl ''no AuthInfo in context'')
      | Some _ \<Rightarrow> (db, Inr \<lparr>Pong = ''Ping: '' @ Ping req @ ''!''\<rparr>))"

definition Server_ExecSQL ::
  "'db ExternalDB \<Rightarrow> 'db \<Rightarrow> peer_ID option \<Rightarrow> ExecSQLRequest \<Rightarrow> 'db \<times> (string + ExecSQLResponse)" where
  "Server_ExecSQL DB db ctx req =
     (case ExecAndCommit DB db (Statement req) (Msg req) of
        (db', Inl e) \<Rightarrow> (db', Inl e)
      | (db', Inr commit) \<Rightarrow> (db', Inr \<lparr>Result = '''', Commit = commit\<rparr>))"

definition Server_GetAllCommits ::
  "'db ExternalDB \<Rightarrow> 'db \<Rightarrow> 'db \<times> (string + string list)" where
  "Server_GetAllCommits DB db =
     (case GetAllCommits DB db of
        (db', Inl e) \<Rightarrow> (db', Inl e)
      | (db', Inr commits) \<Rightarrow> (db', Inr (map Hash commits)))"

definition Server_GetHead ::
  "'db ExternalDB \<Rightarrow> 'db \<Rightarrow> 'db \<times> (string + string)" where
  "Server_GetHead DB db =
     (case GetLastCommit DB db ''main'' of
        (db', Inl e) \<Rightarrow> (db', Inl e)
      | (db', Inr commit) \<Rightarrow> (db', Inr (Hash commit)))"

text \<open>A database that counts the calls made to it, to run the server on.\<close>

definition countingDB :: "nat ExternalDB" where
  "countingDB =
     \<lparr>GetAllCommits = (\<lambda>n. (Suc n, Inr [])),
      ExecAndCommit = (\<lambda>n q m. (Suc n, Inr q)),
      GetLastCommit = (\<lambda>n b. (Suc n, Inr \<lparr>Hash = b\<rparr>))\<rparr>"

text \<open>
  What the model asks of the library for the envelopes: what \<open>Marshal\<close> produces holds
  no newline and decodes, with the newline the writer appends, to the message encoded;
  an encoded request or response payload decodes to the payload encoded.
\<close>

definition codec_round_trip :: "('v, 'sh) json \<Rightarrow> bool" where
  "codec_round_trip js \<longleftrightarrow>
     (\<forall>m b. Marshal_msg js m = Inr b \<longrightarrow> delim \<notin> set b \<and> Unmarshal_msg js (b @ [delim]) = Inr m)
     \<and> (\<forall>r b. Marshal_request js r = Inr b \<longrightarrow> Unmarshal_request js b = Inr r)
     \<and> (\<forall>r b. Marshal_response js r = Inr b \<longrightarrow> Unmarshal_response js b = Inr r)"

section \<open>A small codec and two nodes to run the model on\<close>

definition sep :: char where
  "sep = CHR ''|''"

definition join2 :: "string \<Rightarrow> string \<Rightarrow> string + string" where
  "join2 a b =
     (if sep \<in> set a \<or> delim \<in> set a \<or> delim \<in> set b then Inl ''unsupported value''
      else Inr (a @ sep # b))"

definition split2 :: "string \<Rightarrow> string + string \<times> string" where
  "split2 b =
     (if sep \<in> set b
      then Inr (takeWhile (\<lambda>c. c \<noteq> sep) b, tl (dropWhile (\<lambda>c. c \<noteq> sep) b))
      else Inl ''unexpected end of input'')"

definition trim :: "string \<Rightarrow> string" where
  "trim b = (if b \<noteq> [] \<and> last b = delim then butlast b else b)"

definition demo_json :: "(string, unit) json" where
  "demo_json =
     \<lparr>Marshal = (\<lambda>v. if delim \<in> set v then Inl ''unsupported value'' else Inr v),
      Unmarshal = (\<lambda>sh b. Inr b),
      Marshal_msg = (\<lambda>m. case join2 (Type m) (Payload m) of
                             Inl e \<Rightarrow> Inl e | Inr b \<Rightarrow> join2 (ID m) b),
      Unmarshal_msg = (\<lambda>b. case split2 (trim b) of
                               Inl e \<Rightarrow> Inl e
                             | Inr (i, r) \<Rightarrow> (case split2 r of
                                                Inl e \<Rightarrow> Inl e
                                              | Inr (t, p) \<Rightarrow> Inr \<lparr>ID = i, Type = t, Payload = p\<rparr>)),
      Marshal_request = (\<lambda>r. join2 (Type_req r) (Data_req r)),
      Unmarshal_request = (\<lambda>b. case split2 b of
                                   Inl e \<Rightarrow> Inl e
                                 | Inr (t, d) \<Rightarrow> Inr \<lparr>Type_req = t, Data_req = d\<rparr>),
      Marshal_response = (\<lambda>r. join2 (Error r) (Data r)),
      Unmarshal_response = (\<lambda>b. case split2 b of
                                    Inl e \<Rightarrow> Inl e
                                  | Inr (e, d) \<Rightarrow> Inr \<lparr>Error = e, Data = d\<rparr>),
      Unmarshal_pubsub = (\<lambda>b. case split2 b of
                                  Inl e \<Rightarrow> Inl e
                                | Inr (i, r) \<Rightarrow> (case split2 r of
                                                   Inl e \<Rightarrow> Inl e
                                                 | Inr (t, p) \<Rightarrow>
                                                     Inr \<lparr>ID_ps = i, Type_ps = t, Payload_ps = p\<rparr>))\<rparr>"

definition demo_node :: "peer_ID \<Rightarrow> (string, unit) P2P" where
  "demo_node h =
     \<lparr>host_ID = h,
      rpcHandlers = [''ping'' \<mapsto> \<lparr>Func = (\<lambda>peer data. Return (''Ping: '' @ data @ ''!'')),
                                  RequestStruct = ()\<rparr>,
                     ''boom'' \<mapsto> \<lparr>Func = (\<lambda>peer data. Panic ''nil pointer dereference''),
                                  RequestStruct = ()\<rparr>],
      pubsubHandlers = [''echo'' \<mapsto> \<lparr>Func_ps = (\<lambda>peer data. Return ()), PayloadStruct = ()\<rparr>],
      reqs = Map.empty,
      rpcMsgProcessors = Map.empty\<rparr>"

section \<open>The framer\<close>

lemma ReadBytes_concat: "ReadBytes r = (d, e, rest) \<Longrightarrow> d @ rest = r"
  by (induction r arbitrary: d) (auto split: if_splits prod.splits)

lemma ReadBytes_empty: "ReadBytes r = ([], e, rest) \<Longrightarrow> r = [] \<and> e"
  by (cases r) (auto split: if_splits prod.splits)

lemma ReadBytes_delim: "ReadBytes r = (d, e, rest) \<Longrightarrow> delim \<notin> set (butlast d)"
  by (induction r arbitrary: d) (auto split: if_splits prod.splits)

lemma ReadBytes_last: "ReadBytes r = (d, False, rest) \<Longrightarrow> d \<noteq> [] \<and> last d = delim"
  by (induction r arbitrary: d) (auto split: if_splits prod.splits)

lemma ReadBytes_err: "ReadBytes r = (d, True, rest) \<Longrightarrow> rest = [] \<and> delim \<notin> set d"
  by (induction r arbitrary: d) (auto split: if_splits prod.splits)

lemma delimReader_concat: "concat (delimReader r) = r"
proof (induction r rule: delimReader.induct)
  case (1 r)
  obtain d e rest where rd: "ReadBytes r = (d, e, rest)"
    by (cases "ReadBytes r") auto
  show ?case
  proof (cases e)
    case True
    with rd ReadBytes_err [of r d rest] ReadBytes_concat [OF rd] show ?thesis
      by (simp add: delimReader.simps [of r])
  next
    case False
    with rd 1 have "concat (delimReader rest) = rest"
      by auto
    with False rd ReadBytes_concat [OF rd] show ?thesis
      by (auto simp add: delimReader.simps [of r])
  qed
qed

lemma delimReader_unfold:
  "ReadBytes r = (d, e, rest) \<Longrightarrow>
   delimReader r = (if d \<noteq> [] then [d] else []) @ (if e then [] else delimReader rest)"
  by (simp add: delimReader.simps [of r])

lemma delimReader_chunks:
  "[] \<notin> set (delimReader r) \<and> (\<forall>f\<in>set (delimReader r). delim \<notin> set (butlast f))"
proof (induction r rule: delimReader.induct)
  case (1 r)
  obtain d e rest where rd: "ReadBytes r = (d, e, rest)"
    by (cases "ReadBytes r") auto
  show ?case
  proof (cases e)
    case True
    with rd ReadBytes_delim [OF rd] show ?thesis
      by (simp add: delimReader_unfold)
  next
    case False
    with rd 1 have "[] \<notin> set (delimReader rest) \<and> (\<forall>f\<in>set (delimReader rest). delim \<notin> set (butlast f))"
      by auto
    with False rd ReadBytes_delim [OF rd] show ?thesis
      by (auto simp add: delimReader_unfold)
  qed
qed

lemma delimReader_terminated:
  "\<forall>f\<in>set (butlast (delimReader r)). last f = delim"
proof (induction r rule: delimReader.induct)
  case (1 r)
  obtain d e rest where rd: "ReadBytes r = (d, e, rest)"
    by (cases "ReadBytes r") auto
  show ?case
  proof (cases e)
    case True
    with rd show ?thesis
      by (simp add: delimReader_unfold)
  next
    case False
    with rd 1 have "\<forall>f\<in>set (butlast (delimReader rest)). last f = delim"
      by auto
    with False rd ReadBytes_last [of r d rest] show ?thesis
      by (auto simp add: delimReader_unfold)
  qed
qed

lemma rpcMsgReader_trace:
  "rpcMsgReader (\<lambda>t b. t @ [b]) acc frames = acc @ filter (\<lambda>b. length b \<noteq> 0) frames"
  by (induction frames arbitrary: acc) auto

lemma dispatched_filter: "dispatched frames = filter (\<lambda>b. b \<noteq> []) frames"
  by (simp add: dispatched_def rpcMsgReader_trace)

text \<open>
  Claim C6, amended. For every input the framer yields, in order, the chunks that
  \<open>ReadBytes\<close> returns, and their concatenation is the input: every chunk but the last
  ends with the newline, which is part of the chunk, no chunk holds a newline before its
  last byte, and a last chunk that no newline terminates is yielded too. No chunk is
  empty, so the zero-length test of the reader skips none: every chunk, also one that
  holds the newline alone, is handed to the message processor.
\<close>

theorem framer_chunks:
  "concat (delimReader r) = r
   \<and> [] \<notin> set (delimReader r)
   \<and> (\<forall>f\<in>set (delimReader r). delim \<notin> set (butlast f))
   \<and> (\<forall>f\<in>set (butlast (delimReader r)). last f = delim)
   \<and> dispatched (delimReader r) = delimReader r"
proof -
  have "filter (\<lambda>b. b \<noteq> []) (delimReader r) = delimReader r"
    using delimReader_chunks [of r] by (simp add: filter_id_conv) metis
  then show ?thesis
    using delimReader_concat [of r] delimReader_chunks [of r] delimReader_terminated [of r]
    by (simp add: dispatched_filter)
qed

theorem framer_chunks_witness:
  "concat (delimReader (''a'' @ [delim] @ [delim] @ ''b'')) = ''a'' @ [delim] @ [delim] @ ''b''
   \<and> [] \<notin> set (delimReader (''a'' @ [delim] @ [delim] @ ''b''))
   \<and> delimReader (''a'' @ [delim] @ [delim] @ ''b'') = [''a'' @ [delim], [delim], ''b'']
   \<and> dispatched (delimReader (''a'' @ [delim] @ [delim] @ ''b''))
       = delimReader (''a'' @ [delim] @ [delim] @ ''b'')"
  using framer_chunks [of "''a'' @ [delim] @ [delim] @ ''b''"]
  by (simp add: delimReader.simps delim_def)

text \<open>
  On the stream \<open>a\<newline>\<newline>b\<close> the chunk \<open>b\<close>, which no newline terminates, and the
  chunk that holds the newline alone are both dispatched.
\<close>

theorem framer_counterexample:
  "dispatched (delimReader (''a'' @ [delim] @ [delim] @ ''b'')) = [''a'' @ [delim], [delim], ''b'']"
  by (simp add: dispatched_def delimReader.simps delim_def)

section \<open>The gRPC server's Ping\<close>

text \<open>
  Claim C10. Without a remote peer in the context \<open>Ping\<close> returns no response and the
  error \<open>no AuthInfo in context\<close>; it returns a reply exactly when the context carries a
  peer; and in both cases the database state is the one it was given and the result is
  the same for every implementation of the database interface.
\<close>

theorem Server_Ping_no_AuthInfo:
  "Server_Ping DB db None req = (db, Inl ''no AuthInfo in context'')
   \<and> fst (Server_Ping DB db ctx req) = db
   \<and> Server_Ping DB db ctx req = Server_Ping DB' db ctx req
   \<and> (isl (snd (Server_Ping DB db ctx req)) \<longleftrightarrow> ctx = None)"
  by (simp add: Server_Ping_def split: option.splits)

text \<open>
  Claim C9, amended. For every ping request whose context carries a remote peer, \<open>Ping\<close>
  returns the reply \<open>"Ping: " + msg + "!"\<close> and no error; with \<open>hello\<close> the reply is
  \<open>Ping: hello!\<close>.
\<close>

theorem Server_Ping_reply:
  "Server_Ping DB db (Some remote) req = (db, Inr \<lparr>Pong = ''Ping: '' @ Ping req @ ''!''\<rparr>)
   \<and> Server_Ping DB db (Some remote) \<lparr>Ping = ''hello''\<rparr> = (db, Inr \<lparr>Pong = ''Ping: hello!''\<rparr>)"
  by (simp add: Server_Ping_def)

text \<open>A ping request whose context carries no remote peer gets the error, not the reply.\<close>

theorem Server_Ping_reply_counterexample:
  "Server_Ping countingDB 0 None \<lparr>Ping = ''hello''\<rparr> = (0, Inl ''no AuthInfo in context'')"
  by (simp add: Server_Ping_def)

section \<open>The codec of the examples\<close>

lemma split2_join2: "join2 a b = Inr c \<Longrightarrow> split2 c = Inr (a, b)"
  by (induction a arbitrary: c) (auto simp: join2_def split2_def split: if_splits)

lemma join2_no_delim: "join2 a b = Inr c \<Longrightarrow> delim \<notin> set c"
  by (auto simp: join2_def sep_def delim_def split: if_splits)

lemma trim_delim: "delim \<notin> set c \<Longrightarrow> trim (c @ [delim]) = c"
  by (simp add: trim_def)

section \<open>A handler that panics\<close>

text \<open>
  Claim C5, amended. When the handler function of a request panics, the deferred
  \<open>recover\<close> of the per-chunk task ends the task: no response is put on the write queue
  and the state of the node is unchanged, and the reader goes on with the chunks that
  follow as if the chunk had not arrived. The requester gets no answer for this id.
\<close>

theorem handler_panic_recovered:
  assumes "Unmarshal_msg js msgBytes = Inr msg" and "Type msg = rpcRequest"
    and "Unmarshal_request js (Payload msg) = Inr request"
    and "rpcHandlers p2p (Type_req request) = Some handler"
    and "Unmarshal js (RequestStruct handler) (Data_req request) = Inr data"
    and "Func handler remote data = Panic r"
  shows "msgProcessor js remote (p2p, writeQueue) msgBytes = (p2p, writeQueue)
     \<and> rpcMsgReader (msgProcessor js remote) (p2p, writeQueue) (msgBytes # rest)
         = rpcMsgReader (msgProcessor js remote) (p2p, writeQueue) rest"
proof -
  have "requestHandler js p2p (ID msg) remote request writeQueue = Inl r"
    using assms by (simp add: requestHandler_def getRPCHandler_def)
  with assms have "msgProcessor js remote (p2p, writeQueue) msgBytes = (p2p, writeQueue)"
    by (simp add: msgProcessor_def)
  then show ?thesis
    by simp
qed

theorem handler_panic_recovered_witness:
  "msgProcessor demo_json ''peerA'' (demo_node ''peerB'', []) (''r1|request|boom|x'' @ [delim])
     = (demo_node ''peerB'', [])
   \<and> rpcMsgReader (msgProcessor demo_json ''peerA'') (demo_node ''peerB'', [])
        [''r1|request|boom|x'' @ [delim], ''r2|request|ping|hello'' @ [delim]]
      = (demo_node ''peerB'', [\<lparr>ID = ''r2'', Type = rpcResponse, Payload = ''|Ping: hello!''\<rparr>])"
proof -
  have "rpcMsgReader (msgProcessor demo_json ''peerA'') (demo_node ''peerB'', [])
        [''r2|request|ping|hello'' @ [delim]]
      = (demo_node ''peerB'', [\<lparr>ID = ''r2'', Type = rpcResponse, Payload = ''|Ping: hello!''\<rparr>])"
    by (simp add: msgProcessor_def requestHandler_def getRPCHandler_def demo_node_def
      demo_json_def split2_def trim_def sep_def delim_def rpcRequest_def send_response_def join2_def)
  then show ?thesis
  using handler_panic_recovered [of demo_json "''r1|request|boom|x'' @ [delim]"
      "\<lparr>ID = ''r1'', Type = rpcRequest, Payload = ''boom|x''\<rparr>"
      "\<lparr>Type_req = ''boom'', Data_req = ''x''\<rparr>" "demo_node ''peerB''"
      "\<lparr>Func = (\<lambda>peer data. Panic ''nil pointer dereference''), RequestStruct = ()\<rparr>"
      "''x''" "''peerA''" "''nil pointer dereference''" "[]" "[''r2|request|ping|hello'' @ [delim]]"]
  by (simp add: demo_node_def demo_json_def split2_def trim_def sep_def delim_def rpcRequest_def)
qed


text \<open>
  The request \<open>r1\<close> for the method whose handler panics decodes, reaches the handler, and
  leaves the write queue empty: no response with the id \<open>r1\<close> is enqueued.
\<close>

theorem handler_panic_counterexample:
  "msgProcessor demo_json ''peerA'' (demo_node ''peerB'', []) (''r1|request|boom|x'' @ [delim])
     = (demo_node ''peerB'', [])
   \<and> Unmarshal_msg demo_json (''r1|request|boom|x'' @ [delim])
       = Inr \<lparr>ID = ''r1'', Type = rpcRequest, Payload = ''boom|x''\<rparr>
   \<and> requestHandler demo_json (demo_node ''peerB'') ''r1'' ''peerA''
        \<lparr>Type_req = ''boom'', Data_req = ''x''\<rparr> [] = Inl ''nil pointer dereference''"
  by (simp add: msgProcessor_def requestHandler_def getRPCHandler_def demo_node_def
      demo_json_def split2_def trim_def sep_def delim_def rpcRequest_def)

section \<open>The self-echo filter\<close>

lemma pubsub_task_from: "i \<in> set (pubsub_task js p2p msg) \<Longrightarrow> invoked_from i = ReceivedFrom msg"
  by (auto simp: pubsub_task_def split: sum.splits)

lemma pubsubMsgProcessor_from:
  "host_ID p2p \<notin> invoked_from ` set (pubsubMsgProcessor js p2p events)"
  by (induction js p2p events rule: pubsubMsgProcessor.induct)
     (auto dest: pubsub_task_from)

text \<open>
  Claim C7. A message received from the local peer id is skipped: the loop goes on with
  the next message and no task is spawned for it, so a run over messages that all come
  from the local peer calls no handler, and no handler call of any run is made for the
  local peer. A message from any other peer gets its task, which decodes it and calls
  the handler.
\<close>

theorem self_echo_filter:
  "(ReceivedFrom msg = host_ID p2p \<longrightarrow>
      pubsubMsgProcessor js p2p (Inr msg # next) = pubsubMsgProcessor js p2p next)
   \<and> (ReceivedFrom msg \<noteq> host_ID p2p \<longrightarrow>
      pubsubMsgProcessor js p2p (Inr msg # next)
        = pubsub_task js p2p msg @ pubsubMsgProcessor js p2p next)
   \<and> ((\<forall>e\<in>set events. \<exists>m. e = Inr m \<and> ReceivedFrom m = host_ID p2p) \<longrightarrow>
      pubsubMsgProcessor js p2p events = [])
   \<and> host_ID p2p \<notin> invoked_from ` set (pubsubMsgProcessor js p2p events)"
proof -
  have "(\<forall>e\<in>set events. \<exists>m. e = Inr m \<and> ReceivedFrom m = host_ID p2p) \<longrightarrow>
      pubsubMsgProcessor js p2p events = []"
    by (induction js p2p events rule: pubsubMsgProcessor.induct) auto
  then show ?thesis
    using pubsubMsgProcessor_from [of p2p js events] by simp
qed

theorem self_echo_filter_witness:
  "pubsubMsgProcessor demo_json (demo_node ''peerA'')
     [Inr \<lparr>ReceivedFrom = ''peerA'', Data_ps = ''m1|echo|hi''\<rparr>] = []
   \<and> pubsubMsgProcessor demo_json (demo_node ''peerB'')
     [Inr \<lparr>ReceivedFrom = ''peerA'', Data_ps = ''m1|echo|hi''\<rparr>] = [Invoke ''echo'' ''peerA'' ''hi'']"
  using self_echo_filter [of "\<lparr>ReceivedFrom = ''peerA'', Data_ps = ''m1|echo|hi''\<rparr>"
      "demo_node ''peerA''" demo_json "[]" "[Inr \<lparr>ReceivedFrom = ''peerA'', Data_ps = ''m1|echo|hi''\<rparr>]"]
    self_echo_filter [of "\<lparr>ReceivedFrom = ''peerA'', Data_ps = ''m1|echo|hi''\<rparr>"
      "demo_node ''peerB''" demo_json "[]" "[]"]
  by (simp add: demo_node_def demo_json_def pubsub_task_def getPubSubHandler_def split2_def sep_def)

section \<open>One worker per peer\<close>

text \<open>
  Claim C8. When the table holds a worker for the remote peer of a stream,
  \<open>newRPCStreamHandler\<close> returns the state unchanged and starts no task; after any call
  the table holds a worker for the peer, so a further stream of the same peer changes
  nothing and starts nothing. The table is keyed by the peer id: it holds at most one
  worker for a peer.
\<close>

theorem second_worker_noop:
  "(rpcMsgProcessors p2p (RemotePeer s) = Some worker \<longrightarrow>
      newRPCStreamHandler p2p s ctx = (p2p, []))
   \<and> (RemotePeer s' = RemotePeer s \<longrightarrow>
      newRPCStreamHandler (fst (newRPCStreamHandler p2p s ctx)) s' ctx'
        = (fst (newRPCStreamHandler p2p s ctx), []))
   \<and> rpcMsgProcessors (fst (newRPCStreamHandler p2p s ctx)) (RemotePeer s) \<noteq> None"
  by (auto simp: newRPCStreamHandler_def SetIfAbsent_def split: option.splits)

theorem second_worker_noop_witness:
  "newRPCStreamHandler (demo_node ''peerA'') \<lparr>RemotePeer = ''peerB''\<rparr> 1
     = (demo_node ''peerA''\<lparr>rpcMsgProcessors := [''peerB'' \<mapsto> \<lparr>WriteQueue = [], Stop = 1\<rparr>]\<rparr>,
        [rpcMsgReader_task \<lparr>RemotePeer = ''peerB''\<rparr> 1, rpcMsgWriter_task \<lparr>RemotePeer = ''peerB''\<rparr> 1])
   \<and> newRPCStreamHandler
        (demo_node ''peerA''\<lparr>rpcMsgProcessors := [''peerB'' \<mapsto> \<lparr>WriteQueue = [], Stop = 1\<rparr>]\<rparr>)
        \<lparr>RemotePeer = ''peerB''\<rparr> 2
     = (demo_node ''peerA''\<lparr>rpcMsgProcessors := [''peerB'' \<mapsto> \<lparr>WriteQueue = [], Stop = 1\<rparr>]\<rparr>, [])"
  using second_worker_noop [of "demo_node ''peerA''\<lparr>rpcMsgProcessors := [''peerB'' \<mapsto> \<lparr>WriteQueue = [], Stop = 1\<rparr>]\<rparr>"
      "\<lparr>RemotePeer = ''peerB''\<rparr>" "\<lparr>WriteQueue = [], Stop = 1\<rparr>" 2 "\<lparr>RemotePeer = ''peerB''\<rparr>" 3]
  by (simp add: newRPCStreamHandler_def SetIfAbsent_def demo_node_def)

section \<open>The tracker table\<close>

text \<open>
  On every return of \<open>sendRequest\<close> that follows the send on the write queue, the entry of
  the request is gone from the table; on the two returns for an encoding error the table
  is untouched.
\<close>

lemma sendRequest_removes:
  assumes "sendRequest js world p2p reqID peerID msgType requestData responseData = Some (p2p', r)"
    and "rpcMsgProcessors p2p peerID \<noteq> None"
  shows "reqs p2p' reqID = None \<or> p2p' = p2p"
  using assms
  by (auto simp: sendRequest_def Let_def split: sum.splits option.splits)

text \<open>
  When nothing completes the request before the sleep of the timeout goroutine ends,
  \<open>sendRequest\<close> returns the timeout error; a response that reaches \<open>responseHandler\<close>
  after the entry is gone, or after the close signal is closed, changes nothing.
\<close>

lemma sendRequest_timeout:
  assumes "Marshal js requestData = Inr jsonReqData"
    and "Marshal_request js \<lparr>Type_req = msgType, Data_req = jsonReqData\<rparr> = Inr jsonReq"
    and "rpcMsgProcessors p2p peerID = Some worker"
    and "\<And>p. reqs (world p) reqID = reqs p reqID"
    and "sendRequest js world p2p reqID peerID msgType requestData responseData = r"
  shows "\<exists>p2p'. r = Some (p2p', Inl (''timeout waiting for request '' @ quoted reqID @ ''(''
                                  @ msgType @ '') to peer '' @ quoted peerID))
           \<and> reqs p2p' reqID = None"
  using assms
  by (auto simp: sendRequest_def Let_def timeout_goroutine_def new_requestTracker_def)

lemma late_response_dropped:
  "reqs p2p reqID = None \<or> (\<exists>t. reqs p2p reqID = Some t \<and> closeSig t)
   \<Longrightarrow> responseHandler p2p reqID peerID response = p2p"
  by (auto simp: responseHandler_def)

text \<open>
  Claim C2 fails on the path the claim names: with no worker for the peer, \<open>sendRequest\<close>
  returns the error \<open>peer writer not found\<close> after the tracker has been stored and before
  the removal is deferred, and the table still holds the entry of the request.
\<close>

theorem sendRequest_peer_writer_not_found:
  "sendRequest demo_json (\<lambda>p. p) (demo_node ''peerA'') ''r1'' ''peerB'' ''ping'' ''hello'' ()
     = Some (demo_node ''peerA''\<lparr>reqs := [''r1'' \<mapsto> new_requestTracker]\<rparr>,
             Inl ''failed to send request 'r1' for peer 'peerB': peer writer not found'')"
  by (simp add: sendRequest_def demo_json_def demo_node_def join2_def sep_def delim_def quoted_def)

section \<open>The close-signal latch\<close>

text \<open>
  A goroutine that performs its five operations with no operation of the other in
  between does what the uninterrupted definitions above say.
\<close>

lemma responseHandler_steps:
  assumes "reqs p2p reqID = Some t" and "resp t = None" and "err t = None"
    and "\<not> resp_closed t" and "\<not> err_closed t"
  shows "reqs (responseHandler p2p reqID peerID response) reqID
     = Some (tracker (run (response_value peerID response) tv (replicate 5 ResponseHandler)
                \<lparr>tracker = t, responseHandler_pc = Check, timeout_pc = Check\<rparr>))"
  using assms
  by (cases "closeSig t")
     (auto simp: responseHandler_def run_def step_def response_value_def numeral_eq_Suc Let_def)

lemma timeout_goroutine_steps:
  assumes "resp t = None" and "err t = None" and "\<not> resp_closed t" and "\<not> err_closed t"
  shows "timeout_goroutine reqID msgType peerID t
     = tracker (run rv (timeout_value reqID msgType peerID) (replicate 5 Timeout)
                \<lparr>tracker = t, responseHandler_pc = Check, timeout_pc = Check\<rparr>)"
  using assms
  by (cases "closeSig t")
     (auto simp: timeout_goroutine_def run_def step_def timeout_value_def numeral_eq_Suc)

text \<open>
  Claim C1 fails for the schedule in which both goroutines test the close signal before
  either closes it: \<open>responseHandler\<close> finds it open, the timeout goroutine finds it open,
  \<open>responseHandler\<close> closes it, and the close of the timeout goroutine panics.
\<close>

theorem latch_double_close:
  "timeout_pc (run (response_value ''peerB'' \<lparr>Error = [], Data = ''Ping: hello!''\<rparr>)
                   (timeout_value ''r1'' ''ping'' ''peerB'')
                   [ResponseHandler, Timeout, ResponseHandler, Timeout] latch_init) = Panicked"
  by (simp add: run_def step_def latch_init_def new_requestTracker_def response_value_def)

section \<open>The round trip of a request\<close>

lemma ReadBytes_line: "delim \<notin> set f \<Longrightarrow> ReadBytes (f @ delim # rest) = (f @ [delim], False, rest)"
  by (induction f) auto

lemma delimReader_nil: "delimReader [] = []"
  by (simp add: delimReader.simps)

lemma delimReader_line: "delim \<notin> set f \<Longrightarrow> delimReader (f @ [delim]) = [f @ [delim]]"
  using ReadBytes_line [of f "[]"] by (simp add: delimReader_unfold delimReader_nil)

lemma deliver_nil: "deliver js s st [] = st"
  by (simp add: deliver_def delimReader_nil)

lemma deliver_single:
  assumes "codec_round_trip js"
  shows "deliver js s st [msg] = st
     \<or> (\<exists>bytes. Unmarshal_msg js bytes = Inr msg \<and> deliver js s st [msg] = msgProcessor js s st bytes)"
proof (cases "Marshal_msg js msg")
  case (Inl e)
  then show ?thesis
    by (simp add: deliver_def delimReader_nil)
next
  case (Inr f)
  with assms have "delim \<notin> set f" and "Unmarshal_msg js (f @ [delim]) = Inr msg"
    by (auto simp: codec_round_trip_def)
  with Inr show ?thesis
    by (auto simp: deliver_def delimReader_line)
qed

lemma requestHandler_response:
  assumes "rpcHandlers B m = Some h"
    and "requestHandler js B reqID a \<lparr>Type_req = m, Data_req = xb\<rparr> queue = Inr q"
  shows "\<exists>response.
           q = send_response js \<lparr>ID = reqID, Type = rpcResponse, Payload = []\<rparr> response queue
           \<and> (Error response = [] \<longrightarrow>
               (\<exists>arg res. Unmarshal js (RequestStruct h) xb = Inr arg
                  \<and> Func h a arg = Return res \<and> Marshal js res = Inr (Data response)))"
proof (cases "Unmarshal js (RequestStruct h) xb")
  case (Inl e)
  with assms show ?thesis
    by (intro exI [of _ "\<lparr>Error = ''failed to decode data struct: '' @ e, Data = []\<rparr>"])
       (simp add: requestHandler_def getRPCHandler_def)
next
  case (Inr arg)
  show ?thesis
  proof (cases "Func h a arg")
    case (Return res)
    show ?thesis
    proof (cases "Marshal js res")
      case (Inl e)
      with assms Inr Return show ?thesis
        by (intro exI [of _ "\<lparr>Error = ''Internal error: '' @ e, Data = []\<rparr>"])
           (simp add: requestHandler_def getRPCHandler_def)
    next
      case (Inr rb)
      with assms \<open>Unmarshal js (RequestStruct h) xb = Inr arg\<close> Return show ?thesis
        by (intro exI [of _ "\<lparr>Error = [], Data = rb\<rparr>"])
           (simp add: requestHandler_def getRPCHandler_def)
    qed
  next
    case (Fail e)
    with assms Inr show ?thesis
      by (intro exI [of _ "\<lparr>Error = ''Internal error: '' @ e, Data = []\<rparr>"])
         (simp add: requestHandler_def getRPCHandler_def)
  next
    case (Panic r)
    with assms Inr show ?thesis
      by (simp add: requestHandler_def getRPCHandler_def)
  qed
qed

lemma send_response_cases:
  "send_response js msg response [] = []
   \<or> (\<exists>jr. send_response js msg response [] = [msg\<lparr>Payload := jr\<rparr>]
         \<and> Marshal_response js response = Inr jr)"
  by (simp add: send_response_def split: sum.splits)

lemma request_reply:
  assumes rt: "codec_round_trip js"
    and h: "rpcHandlers B m = Some h"
    and mr: "Marshal_request js \<lparr>Type_req = m, Data_req = xb\<rparr> = Inr jsonReq"
    and d: "deliver js a (B, []) [\<lparr>ID = reqID, Type = rpcRequest, Payload = jsonReq\<rparr>] = (B', queue)"
  shows "queue = []
     \<or> (\<exists>response jr. queue = [\<lparr>ID = reqID, Type = rpcResponse, Payload = jr\<rparr>]
          \<and> Marshal_response js response = Inr jr
          \<and> (Error response = [] \<longrightarrow>
               (\<exists>arg res. Unmarshal js (RequestStruct h) xb = Inr arg
                  \<and> Func h a arg = Return res \<and> Marshal js res = Inr (Data response))))"
proof -
  let ?msg = "\<lparr>ID = reqID, Type = rpcRequest, Payload = jsonReq\<rparr>"
  from deliver_single [OF rt, of a "(B, [])" ?msg] d
  consider "queue = []"
    | bytes where "Unmarshal_msg js bytes = Inr ?msg" "msgProcessor js a (B, []) bytes = (B', queue)"
    by auto
  then show ?thesis
  proof cases
    case 1
    then show ?thesis by simp
  next
    case 2
    from rt mr have ur: "Unmarshal_request js jsonReq = Inr \<lparr>Type_req = m, Data_req = xb\<rparr>"
      by (simp add: codec_round_trip_def)
    from 2 ur have rh: "requestHandler js B reqID a \<lparr>Type_req = m, Data_req = xb\<rparr> [] = Inl r \<Longrightarrow> queue = []"
      and rh': "requestHandler js B reqID a \<lparr>Type_req = m, Data_req = xb\<rparr> [] = Inr q \<Longrightarrow> queue = q" for r q
      by (auto simp: msgProcessor_def)
    show ?thesis
    proof (cases "requestHandler js B reqID a \<lparr>Type_req = m, Data_req = xb\<rparr> []")
      case (Inl r)
      with rh show ?thesis by simp
    next
      case (Inr q)
      with rh' have "queue = q" by simp
      moreover from requestHandler_response [OF h Inr] obtain response where
        q: "q = send_response js \<lparr>ID = reqID, Type = rpcResponse, Payload = []\<rparr> response []"
        and ok: "Error response = [] \<longrightarrow>
               (\<exists>arg res. Unmarshal js (RequestStruct h) xb = Inr arg
                  \<and> Func h a arg = Return res \<and> Marshal js res = Inr (Data response))"
        by blast
      ultimately show ?thesis
        using send_response_cases [of js "\<lparr>ID = reqID, Type = rpcResponse, Payload = []\<rparr>" response]
        by auto
    qed
  qed
qed

lemma response_delivery:
  assumes rt: "codec_round_trip js"
    and t0: "reqs A reqID = Some new_requestTracker"
    and mr: "Marshal_response js response = Inr jr"
    and d: "deliver js b (A, []) [\<lparr>ID = reqID, Type = rpcResponse, Payload = jr\<rparr>] = (A', queue)"
    and t: "reqs A' reqID = Some t" "resp t = Some data"
  shows "Error response = [] \<and> data = Data response"
proof -
  let ?msg = "\<lparr>ID = reqID, Type = rpcResponse, Payload = jr\<rparr>"
  from deliver_single [OF rt, of b "(A, [])" ?msg] d
  consider "A' = A"
    | bytes where "Unmarshal_msg js bytes = Inr ?msg" "msgProcessor js b (A, []) bytes = (A', queue)"
    by auto
  then show ?thesis
  proof cases
    case 1
    with t0 t show ?thesis
      by (auto simp: new_requestTracker_def)
  next
    case 2
    from rt mr have "Unmarshal_response js jr = Inr response"
      by (simp add: codec_round_trip_def)
    with 2 have "A' = responseHandler A reqID b response"
      by (simp add: msgProcessor_def rpcRequest_def rpcResponse_def)
    with t0 t show ?thesis
      by (auto simp: responseHandler_def new_requestTracker_def Let_def split: if_splits)
  qed
qed

lemma timeout_goroutine_resp: "resp (timeout_goroutine reqID m b t) = resp t"
  by (simp add: timeout_goroutine_def)

lemma exchange_tracker:
  assumes rt: "codec_round_trip js"
    and h: "rpcHandlers B m = Some h"
    and mr: "Marshal_request js \<lparr>Type_req = m, Data_req = xb\<rparr> = Inr jsonReq"
    and w: "rpcMsgProcessors A b = Some worker"
           "WriteQueue worker = [\<lparr>ID = reqID, Type = rpcRequest, Payload = jsonReq\<rparr>]"
    and t0: "reqs A reqID = Some new_requestTracker"
    and t: "reqs (exchange js b B A) reqID = Some t" "resp t = Some data"
  shows "\<exists>arg res. Unmarshal js (RequestStruct h) xb = Inr arg
           \<and> Func h (host_ID A) arg = Return res \<and> Marshal js res = Inr data"
proof -
  let ?A = "A\<lparr>rpcMsgProcessors := (rpcMsgProcessors A)(b \<mapsto> worker\<lparr>WriteQueue := []\<rparr>)\<rparr>"
  obtain B' queueB where dB:
    "deliver js (host_ID A) (B, []) [\<lparr>ID = reqID, Type = rpcRequest, Payload = jsonReq\<rparr>] = (B', queueB)"
    by (cases "deliver js (host_ID A) (B, []) [\<lparr>ID = reqID, Type = rpcRequest, Payload = jsonReq\<rparr>]")
  obtain A' queue where dA: "deliver js b (?A, []) queueB = (A', queue)"
    by (cases "deliver js b (?A, []) queueB")
  from w dB dA have ex: "reqs (exchange js b B A) reqID = reqs A' reqID"
    by (simp add: exchange_def)
  have t0': "reqs ?A reqID = Some new_requestTracker"
    using t0 by simp
  from request_reply [OF rt h mr dB] show ?thesis
  proof
    assume "queueB = []"
    with dA have "A' = ?A"
      by (simp add: deliver_nil)
    with ex t t0 show ?thesis
      by (auto simp: new_requestTracker_def)
  next
    assume "\<exists>response jr. queueB = [\<lparr>ID = reqID, Type = rpcResponse, Payload = jr\<rparr>]
          \<and> Marshal_response js response = Inr jr
          \<and> (Error response = [] \<longrightarrow>
               (\<exists>arg res. Unmarshal js (RequestStruct h) xb = Inr arg
                  \<and> Func h (host_ID A) arg = Return res \<and> Marshal js res = Inr (Data response)))"
    then obtain response jr where q: "queueB = [\<lparr>ID = reqID, Type = rpcResponse, Payload = jr\<rparr>]"
      and m: "Marshal_response js response = Inr jr"
      and ok: "Error response = [] \<longrightarrow>
               (\<exists>arg res. Unmarshal js (RequestStruct h) xb = Inr arg
                  \<and> Func h (host_ID A) arg = Return res \<and> Marshal js res = Inr (Data response))"
      by blast
    from t ex have "reqs A' reqID = Some t"
      by simp
    from response_delivery [OF rt t0' m dA [unfolded q] this t(2)] ok show ?thesis
      by simp
  qed
qed

text \<open>
  Claim C3. Let the codec round-trip the envelopes, let \<open>h\<close> be the handler the peer has
  registered under the method, and let the write queue to the peer be empty when the
  request is sent over a stream that delivers what is written. When \<open>sendRequest\<close>
  returns without error, the value it decodes into \<open>responseData\<close> is the decoding of
  the encoding of the handler's result on the decoding of the encoding of the request
  value: \<open>y = h(x)\<close> up to the codec round trip of \<open>x\<close> and of \<open>h(x)\<close>.
\<close>

theorem rpc_round_trip:
  assumes rt: "codec_round_trip js"
    and h: "rpcHandlers B m = Some h"
    and w: "rpcMsgProcessors A b = Some worker" "WriteQueue worker = []"
    and ok: "sendRequest js (exchange js b B) A reqID b m x sh = Some (A', Inr y)"
  shows "\<exists>xb arg res rb. Marshal js x = Inr xb
           \<and> Unmarshal js (RequestStruct h) xb = Inr arg
           \<and> Func h (host_ID A) arg = Return res
           \<and> Marshal js res = Inr rb
           \<and> Unmarshal js sh rb = Inr y"
proof -
  from ok obtain xb where mx: "Marshal js x = Inr xb"
    by (cases "Marshal js x") (auto simp: sendRequest_def)
  from ok mx obtain jsonReq where
    mr: "Marshal_request js \<lparr>Type_req = m, Data_req = xb\<rparr> = Inr jsonReq"
    by (cases "Marshal_request js \<lparr>Type_req = m, Data_req = xb\<rparr>") (auto simp: sendRequest_def)
  let ?msg = "\<lparr>ID = reqID, Type = rpcRequest, Payload = jsonReq\<rparr>"
  let ?A1 = "A\<lparr>reqs := (reqs A)(reqID \<mapsto> new_requestTracker)\<rparr>"
  let ?A2 = "?A1\<lparr>rpcMsgProcessors := (rpcMsgProcessors ?A1)
                 (b \<mapsto> worker\<lparr>WriteQueue := WriteQueue worker @ [?msg]\<rparr>)\<rparr>"
  let ?A3 = "exchange js b B ?A2"
  let ?t = "case reqs ?A3 reqID of Some t \<Rightarrow> t | None \<Rightarrow> new_requestTracker"
  from ok mx mr w obtain data where r: "resp ?t = Some data" and y: "Unmarshal js sh data = Inr y"
    by (auto simp: sendRequest_def Let_def timeout_goroutine_resp split: option.splits sum.splits)
  from r obtain t where t: "reqs ?A3 reqID = Some t" "resp t = Some data"
    by (cases "reqs ?A3 reqID") (auto simp: new_requestTracker_def)
  have "\<exists>arg res. Unmarshal js (RequestStruct h) xb = Inr arg
           \<and> Func h (host_ID ?A2) arg = Return res \<and> Marshal js res = Inr data"
  proof (rule exchange_tracker [OF rt h mr _ _ _ t])
    show "rpcMsgProcessors ?A2 b = Some (worker\<lparr>WriteQueue := WriteQueue worker @ [?msg]\<rparr>)"
      by simp
    show "WriteQueue (worker\<lparr>WriteQueue := WriteQueue worker @ [?msg]\<rparr>) = [?msg]"
      using w(2) by simp
    show "reqs ?A2 reqID = Some new_requestTracker"
      by simp
  qed
  with mx y show ?thesis
    by auto
qed

lemma demo_round_trip: "codec_round_trip demo_json"
  unfolding codec_round_trip_def
proof (intro conjI allI impI)
  fix m :: rpcMsg and b
  assume a: "Marshal_msg demo_json m = Inr b"
  then obtain c where c: "join2 (Type m) (Payload m) = Inr c" and b: "join2 (ID m) c = Inr b"
    by (auto simp: demo_json_def split: sum.splits)
  from b show "delim \<notin> set b"
    by (rule join2_no_delim)
  then have "trim (b @ [delim]) = b"
    by (rule trim_delim)
  with split2_join2 [OF b] split2_join2 [OF c] show "Unmarshal_msg demo_json (b @ [delim]) = Inr m"
    by (simp add: demo_json_def)
next
  fix r :: rpcPayloadRequest and b
  assume "Marshal_request demo_json r = Inr b"
  then have "join2 (Type_req r) (Data_req r) = Inr b"
    by (simp add: demo_json_def)
  from split2_join2 [OF this] show "Unmarshal_request demo_json b = Inr r"
    by (simp add: demo_json_def)
next
  fix r :: rpcPayloadResponse and b
  assume "Marshal_response demo_json r = Inr b"
  then have "join2 (Error r) (Data r) = Inr b"
    by (simp add: demo_json_def)
  from split2_join2 [OF this] show "Unmarshal_response demo_json b = Inr r"
    by (simp add: demo_json_def)
qed

theorem rpc_round_trip_witness:
  "sendRequest demo_json (exchange demo_json ''peerB'' (demo_node ''peerB''))
       (demo_node ''peerA''\<lparr>rpcMsgProcessors := [''peerB'' \<mapsto> \<lparr>WriteQueue = [], Stop = 1\<rparr>]\<rparr>)
       ''r1'' ''peerB'' ''ping'' ''hello'' ()
     = Some (demo_node ''peerA''\<lparr>rpcMsgProcessors := [''peerB'' \<mapsto> \<lparr>WriteQueue = [], Stop = 1\<rparr>]\<rparr>,
             Inr ''Ping: hello!'')
   \<and> (\<exists>xb arg res rb. Marshal demo_json ''hello'' = Inr xb
           \<and> Unmarshal demo_json () xb = Inr arg
           \<and> ''Ping: '' @ arg @ ''!'' = res
           \<and> Marshal demo_json res = Inr rb
           \<and> Unmarshal demo_json () rb = Inr ''Ping: hello!'')"
proof -
  let ?A = "demo_node ''peerA''\<lparr>rpcMsgProcessors := [''peerB'' \<mapsto> \<lparr>WriteQueue = [], Stop = 1\<rparr>]\<rparr>"
  let ?h = "\<lparr>Func = (\<lambda>peer data. Return (''Ping: '' @ data @ ''!'')), RequestStruct = ()\<rparr>"
  have run: "sendRequest demo_json (exchange demo_json ''peerB'' (demo_node ''peerB'')) ?A
       ''r1'' ''peerB'' ''ping'' ''hello'' () = Some (?A, Inr ''Ping: hello!'')"
    by (simp add: sendRequest_def exchange_def deliver_def delimReader.simps msgProcessor_def
        requestHandler_def responseHandler_def getRPCHandler_def send_response_def
        timeout_goroutine_def new_requestTracker_def demo_node_def demo_json_def join2_def
        split2_def trim_def sep_def delim_def rpcRequest_def rpcResponse_def)
  have h: "rpcHandlers (demo_node ''peerB'') ''ping'' = Some ?h"
    by (simp add: demo_node_def)
  have w: "rpcMsgProcessors ?A ''peerB'' = Some \<lparr>WriteQueue = [], Stop = 1\<rparr>"
    by simp
  from rpc_round_trip [OF demo_round_trip h w _ run] run show ?thesis
    by simp
qed

end
